theory Spec2Isabelle
  imports Main
begin

section \<open>PureMVC multicore: the Model and the Facade\<close>

text \<open>
  The framework keeps four static instance maps (one per class Model, View, Controller and
  Facade), each from a multiton key to the instance constructed for that key. Instances
  are objects with identity and mutable fields, so the embedding has an explicit store:
  a reference is a number, each class has a heap from references to the fields of its
  objects, and every operation takes the world and returns the world it leaves.

  The instance maps and the proxy map are JavaScript arrays used as dictionaries with
  string keys. The embedding keeps the string-keyed entries the program writes; the
  properties every array has by itself (\<open>length\<close> and the inherited methods) are not part
  of the key space.
\<close>

subsection \<open>Values\<close>

type_synonym ref = nat

text \<open>
  A multiton key is documented as a string; \<open>getInstance\<close> is documented for \<open>null\<close> and
  \<open>undefined\<close> as well.
\<close>

datatype jskey = KUndefined | KNull | KString string

text \<open>The truth value of a key in a condition: only a non-empty string is truthy.\<close>

fun truthy :: "jskey \<Rightarrow> bool" where
  "truthy KUndefined = False"
| "truthy KNull = False"
| "truthy (KString s) = (s \<noteq> [])"

text \<open>The property name a key selects in an instance map.\<close>

fun toPropertyKey :: "jskey \<Rightarrow> string" where
  "toPropertyKey KUndefined = ''undefined''"
| "toPropertyKey KNull = ''null''"
| "toPropertyKey (KString s) = s"

text \<open>
  What a read of a slot can give: nothing was ever stored (\<open>undefined\<close>), \<open>null\<close> was
  stored, or an object.
\<close>

datatype 'a jsval = Undefined | Null | Obj 'a

fun is_object :: "'a jsval \<Rightarrow> bool" where
  "is_object (Obj _) = True"
| "is_object _ = False"

datatype error = Error string | TypeError

definition Model_MULTITON_MSG :: string where
  "Model_MULTITON_MSG = ''Model instance for this Multiton key already constructed!''"

definition Facade_MULTITON_MSG :: string where
  "Facade_MULTITON_MSG = ''Facade instance for this Multiton key already constructed!''"

subsection \<open>Collaborators that are not part of the sources at hand\<close>

text \<open>
  Modelled from the spec: the Proxy class. A proxy is a named holder registered with the
  Model (section 2); the core calls its lifecycle hooks and nothing else. A proxy has an
  identity and the name \<open>getProxyName\<close> returns.
\<close>

datatype proxy = Proxy (proxyId: nat) (getProxyName: string)

text \<open>
  Modelled from the spec: the values a notification can carry as its body and its type,
  which are optional and opaque to the framework (section 3).
\<close>

datatype payload = PUndefined | PNull | PString string | PNumber int | PBool bool

text \<open>
  Modelled from the spec: the Notification class, an immutable envelope of a name, a
  body and a type (section 3).
\<close>

datatype notification =
  Notification (getName: string) (getBody: payload) (getType: payload)

text \<open>
  Modelled from the spec: the Observer class, a callback and the context it is bound to
  (section 3); both are references.
\<close>

datatype observer = Observer (notifyMethod: nat) (notifyContext: nat)

subsection \<open>Objects and the world\<close>

text \<open>
  The proxy map of a Model: a slot per proxy name. \<open>registerProxy\<close> stores the proxy in
  the slot and \<open>removeProxy\<close> stores \<open>null\<close>; no slot is ever deleted.
\<close>

type_synonym proxy_map = "string \<Rightarrow> proxy jsval"

text \<open>A Model object: the fields the constructor sets.\<close>

record Model =
  proxyMap :: proxy_map
  multitonKey :: string

text \<open>
  Modelled from the spec: the fields of a View object that dispatch uses, the map from a
  notification name to the ordered sequence of its observers (section 3). A name with no
  sequence is absent from the map.
\<close>

record View =
  observerMap :: "string \<rightharpoonup> observer list"

text \<open>
  A Facade object: the three references the constructor sets to \<open>null\<close>, and the key,
  \<open>null\<close> until \<open>initializeNotifier\<close> stores it.
\<close>

record Facade =
  controller :: "ref option"
  model :: "ref option"
  view :: "ref option"
  multitonKey :: jskey

text \<open>
  Modelled from the spec: the methods of a proxy that the Model calls, \<open>initializeNotifier\<close>
  and the two lifecycle hooks (section 6). The body of a method belongs to the proxy; a
  call is recorded in the world together with the proxy map of the calling Model as it is
  at the moment of the call, and has no effect on the maps of the framework.
\<close>

datatype call = InitializeNotifier proxy string | OnRegister proxy | OnRemove proxy


text \<open>
  The world: the four static instance maps, the heaps of the objects, the next free
  reference, and the two traces of calls that leave the framework.
\<close>

record world =
  Model_instanceMap :: "string \<rightharpoonup> ref"
  View_instanceMap :: "string \<rightharpoonup> ref"
  Controller_instanceMap :: "string \<rightharpoonup> ref"
  Facade_instanceMap :: "string \<rightharpoonup> ref"
  models :: "ref \<Rightarrow> Model"
  views :: "ref \<Rightarrow> View"
  facades :: "ref \<Rightarrow> Facade"
  nextRef :: ref
  calls :: "(call \<times> proxy_map) list"
  notified :: "(observer \<times> notification) list"

text \<open>The world when the classes have been loaded: every instance map is empty.\<close>

definition init_world :: world where
  "init_world =
     \<lparr>Model_instanceMap = Map.empty, View_instanceMap = Map.empty,
      Controller_instanceMap = Map.empty, Facade_instanceMap = Map.empty,
      models = (\<lambda>_. \<lparr>proxyMap = (\<lambda>_. Undefined), Model.multitonKey = []\<rparr>),
      views = (\<lambda>_. \<lparr>observerMap = Map.empty\<rparr>),
      facades = (\<lambda>_. \<lparr>controller = None, model = None, view = None, Facade.multitonKey = KNull\<rparr>),
      nextRef = 0, calls = [], notified = []\<rparr>"

type_synonym 'a result = "(error + 'a) \<times> world"

subsection \<open>Model\<close>

text \<open>\<open>initializeModel() {}\<close>\<close>

definition Model_initializeModel :: "ref \<Rightarrow> world \<Rightarrow> world" where
  "Model_initializeModel this w = w"

text \<open>
  The constructor: throws when the instance map has an entry for the key; otherwise the
  new object gets an empty proxy map and the key, is stored under the key, and
  \<open>initializeModel\<close> runs.
\<close>

definition Model_constructor :: "string \<Rightarrow> world \<Rightarrow> ref result" where
  "Model_constructor key w =
     (case Model_instanceMap w key of
        Some _ \<Rightarrow> (Inl (Error Model_MULTITON_MSG), w)
      | None \<Rightarrow>
          (let this = nextRef w;
               w1 = w\<lparr>nextRef := Suc this,
                      models := (models w)(this := \<lparr>proxyMap = (\<lambda>_. Undefined), Model.multitonKey = key\<rparr>)\<rparr>;
               w2 = w1\<lparr>Model_instanceMap := (Model_instanceMap w1)(key \<mapsto> this)\<rparr>
           in (Inr this, Model_initializeModel this w2)))"

text \<open>
  \<open>getInstance\<close>: \<open>null\<close> for a falsy key; otherwise constructs and stores an instance
  when the map has none, and returns the entry of the map. A result \<open>None\<close> is \<open>null\<close>.
\<close>

definition Model_getInstance :: "jskey \<Rightarrow> world \<Rightarrow> ref option result" where
  "Model_getInstance key w =
     (if \<not> truthy key then (Inr None, w)
      else (case Model_instanceMap w (toPropertyKey key) of
              None \<Rightarrow>
                (case Model_constructor (toPropertyKey key) w of
                   (Inl e, w1) \<Rightarrow> (Inl e, w1)
                 | (Inr r, w1) \<Rightarrow>
                     (let w2 = w1\<lparr>Model_instanceMap := (Model_instanceMap w1)(toPropertyKey key \<mapsto> r)\<rparr>
                      in (Inr (Model_instanceMap w2 (toPropertyKey key)), w2)))
            | Some _ \<Rightarrow> (Inr (Model_instanceMap w (toPropertyKey key)), w)))"

text \<open>A call of a proxy method from the Model \<open>this\<close>.\<close>

definition invoke :: "ref \<Rightarrow> call \<Rightarrow> world \<Rightarrow> world" where
  "invoke this c w = w\<lparr>calls := calls w @ [(c, proxyMap (models w this))]\<rparr>"

definition Model_set_proxy :: "ref \<Rightarrow> string \<Rightarrow> proxy jsval \<Rightarrow> world \<Rightarrow> world" where
  "Model_set_proxy this proxyName v w =
     w\<lparr>models := (models w)(this := (models w this)\<lparr>proxyMap := (proxyMap (models w this))(proxyName := v)\<rparr>)\<rparr>"

definition Model_registerProxy :: "ref \<Rightarrow> proxy \<Rightarrow> world \<Rightarrow> world" where
  "Model_registerProxy this p w =
     (let w1 = invoke this (InitializeNotifier p (Model.multitonKey (models w this))) w;
          w2 = Model_set_proxy this (getProxyName p) (Obj p) w1
      in invoke this (OnRegister p) w2)"

definition Model_retrieveProxy :: "ref \<Rightarrow> string \<Rightarrow> world \<Rightarrow> proxy jsval" where
  "Model_retrieveProxy this proxyName w = proxyMap (models w this) proxyName"

definition Model_hasProxy :: "ref \<Rightarrow> string \<Rightarrow> world \<Rightarrow> bool" where
  "Model_hasProxy this proxyName w = is_object (proxyMap (models w this) proxyName)"


definition Model_removeModel :: "string \<Rightarrow> world \<Rightarrow> world" where
  "Model_removeModel key w = w\<lparr>Model_instanceMap := (Model_instanceMap w)(key := None)\<rparr>"

subsection \<open>View and Controller\<close>

text \<open>
  The classes View and Controller are not part of the sources at hand; the Facade calls
  their factories and their removals. Sections 3 and 6 of the spec make every registry
  keyed by the multiton key, created for the key and released by the teardown call.
\<close>

text \<open>
  Modelled from the spec: \<open>View.getInstance\<close>, the per-key factory of the View, in the
  shape of \<open>Model.getInstance\<close>: \<open>null\<close> for a falsy key, otherwise the View of the key,
  made with an empty observer map when the key has none.
\<close>

definition View_getInstance :: "jskey \<Rightarrow> world \<Rightarrow> ref option result" where
  "View_getInstance key w =
     (if \<not> truthy key then (Inr None, w)
      else (case View_instanceMap w (toPropertyKey key) of
              None \<Rightarrow>
                (let this = nextRef w;
                     w1 = w\<lparr>nextRef := Suc this,
                            views := (views w)(this := \<lparr>observerMap = Map.empty\<rparr>)\<rparr>;
                     w2 = w1\<lparr>View_instanceMap := (View_instanceMap w1)(toPropertyKey key \<mapsto> this)\<rparr>
                 in (Inr (View_instanceMap w2 (toPropertyKey key)), w2))
            | Some _ \<Rightarrow> (Inr (View_instanceMap w (toPropertyKey key)), w)))"

text \<open>
  Modelled from the spec: \<open>Controller.getInstance\<close>, the per-key factory of the
  Controller, in the same shape. A Controller object has no field that is used here, so
  it is a reference only.
\<close>

definition Controller_getInstance :: "jskey \<Rightarrow> world \<Rightarrow> ref option result" where
  "Controller_getInstance key w =
     (if \<not> truthy key then (Inr None, w)
      else (case Controller_instanceMap w (toPropertyKey key) of
              None \<Rightarrow>
                (let this = nextRef w;
                     w1 = w\<lparr>nextRef := Suc this\<rparr>;
                     w2 = w1\<lparr>Controller_instanceMap :=
                              (Controller_instanceMap w1)(toPropertyKey key \<mapsto> this)\<rparr>
                 in (Inr (Controller_instanceMap w2 (toPropertyKey key)), w2))
            | Some _ \<Rightarrow> (Inr (Controller_instanceMap w (toPropertyKey key)), w)))"

text \<open>
  Modelled from the spec: \<open>View.removeView\<close>, the teardown of the View of a key
  (section 6): it deletes the entry of the key, as \<open>Model.removeModel\<close> does.
\<close>

definition View_removeView :: "string \<Rightarrow> world \<Rightarrow> world" where
  "View_removeView key w = w\<lparr>View_instanceMap := (View_instanceMap w)(key := None)\<rparr>"

text \<open>
  Modelled from the spec: \<open>Controller.removeController\<close>, the teardown of the Controller
  of a key (section 6): it deletes the entry of the key.
\<close>

definition Controller_removeController :: "string \<Rightarrow> world \<Rightarrow> world" where
  "Controller_removeController key w =
     w\<lparr>Controller_instanceMap := (Controller_instanceMap w)(key := None)\<rparr>"

text \<open>
  Modelled from the spec: the callbacks of the observers. A callback belongs to the
  application; \<open>cb\<close> gives, for an observer and a notification, what the callback does to
  the View, so a callback may register and remove observers while a dispatch runs
  (section 4.1).
\<close>

type_synonym callbacks = "observer \<Rightarrow> notification \<Rightarrow> View \<Rightarrow> View"

text \<open>
  Modelled from the spec: notifying one observer invokes its callback with the
  notification (section 4.1). The invocation is recorded in \<open>notified\<close>.
\<close>

definition notifyObserver :: "callbacks \<Rightarrow> ref \<Rightarrow> observer \<Rightarrow> notification \<Rightarrow> world \<Rightarrow> world" where
  "notifyObserver cb this ob n w =
     w\<lparr>views := (views w)(this := cb ob n (views w this)),
       notified := notified w @ [(ob, n)]\<rparr>"

text \<open>
  Modelled from the spec: the loop of \<open>View.notifyObservers\<close> over the snapshot, each
  observer notified in snapshot order (section 4.1).
\<close>

fun dispatch :: "callbacks \<Rightarrow> ref \<Rightarrow> notification \<Rightarrow> observer list \<Rightarrow> world \<Rightarrow> world" where
  "dispatch cb this n [] w = w"
| "dispatch cb this n (ob # obs) w = dispatch cb this n obs (notifyObserver cb this ob n w)"

text \<open>
  Modelled from the spec: \<open>View.notifyObservers\<close> (section 4.1). With no sequence
  registered for the name of the notification it returns with no effect. Otherwise the
  sequence read at that moment is the snapshot, taken before any observer is notified,
  and the dispatch runs over it.
\<close>

definition View_notifyObservers :: "callbacks \<Rightarrow> ref \<Rightarrow> notification \<Rightarrow> world \<Rightarrow> world" where
  "View_notifyObservers cb this n w =
     (case observerMap (views w this) (getName n) of
        None \<Rightarrow> w
      | Some observers \<Rightarrow> dispatch cb this n observers w)"

text \<open>
  Modelled from the spec: \<open>registerObserver\<close> on a View object (section 4.1): it appends
  the observer to the sequence of the name and creates the sequence when absent.
\<close>

definition registerObserver :: "string \<Rightarrow> observer \<Rightarrow> View \<Rightarrow> View" where
  "registerObserver notificationName ob v =
     (case observerMap v notificationName of
        None \<Rightarrow> v\<lparr>observerMap := (observerMap v)(notificationName \<mapsto> [ob])\<rparr>
      | Some obs \<Rightarrow> v\<lparr>observerMap := (observerMap v)(notificationName \<mapsto> obs @ [ob])\<rparr>)"

text \<open>
  Modelled from the spec: the scan of \<open>removeObserver\<close> (section 4.1), which removes the
  first observer whose context is the given one.
\<close>

fun remove_first_context :: "nat \<Rightarrow> observer list \<Rightarrow> observer list" where
  "remove_first_context c [] = []"
| "remove_first_context c (ob # obs) =
     (if notifyContext ob = c then obs else ob # remove_first_context c obs)"

text \<open>
  Modelled from the spec: \<open>removeObserver\<close> on a View object (section 4.1): after the
  scan, a name whose sequence is empty is deleted from the map.
\<close>

definition removeObserver :: "string \<Rightarrow> nat \<Rightarrow> View \<Rightarrow> View" where
  "removeObserver notificationName c v =
     (case observerMap v notificationName of
        None \<Rightarrow> v
      | Some obs \<Rightarrow>
          (let obs1 = remove_first_context c obs
           in if obs1 = [] then v\<lparr>observerMap := (observerMap v)(notificationName := None)\<rparr>
              else v\<lparr>observerMap := (observerMap v)(notificationName \<mapsto> obs1)\<rparr>))"

subsection \<open>Facade\<close>

definition Facade_initializeNotifier :: "ref \<Rightarrow> string \<Rightarrow> world \<Rightarrow> world" where
  "Facade_initializeNotifier this key w =
     w\<lparr>facades := (facades w)(this := (facades w this)\<lparr>Facade.multitonKey := KString key\<rparr>)\<rparr>"

definition Facade_initializeModel :: "ref \<Rightarrow> world \<Rightarrow> unit result" where
  "Facade_initializeModel this w =
     (case model (facades w this) of
        Some _ \<Rightarrow> (Inr (), w)
      | None \<Rightarrow>
          (case Model_getInstance (Facade.multitonKey (facades w this)) w of
             (Inl e, w1) \<Rightarrow> (Inl e, w1)
           | (Inr m, w1) \<Rightarrow>
               (Inr (), w1\<lparr>facades := (facades w1)(this := (facades w1 this)\<lparr>model := m\<rparr>)\<rparr>)))"

definition Facade_initializeController :: "ref \<Rightarrow> world \<Rightarrow> unit result" where
  "Facade_initializeController this w =
     (case controller (facades w this) of
        Some _ \<Rightarrow> (Inr (), w)
      | None \<Rightarrow>
          (case Controller_getInstance (Facade.multitonKey (facades w this)) w of
             (Inl e, w1) \<Rightarrow> (Inl e, w1)
           | (Inr c, w1) \<Rightarrow>
               (Inr (), w1\<lparr>facades := (facades w1)(this := (facades w1 this)\<lparr>controller := c\<rparr>)\<rparr>)))"

definition Facade_initializeView :: "ref \<Rightarrow> world \<Rightarrow> unit result" where
  "Facade_initializeView this w =
     (case view (facades w this) of
        Some _ \<Rightarrow> (Inr (), w)
      | None \<Rightarrow>
          (case View_getInstance (Facade.multitonKey (facades w this)) w of
             (Inl e, w1) \<Rightarrow> (Inl e, w1)
           | (Inr v, w1) \<Rightarrow>
               (Inr (), w1\<lparr>facades := (facades w1)(this := (facades w1 this)\<lparr>view := v\<rparr>)\<rparr>)))"

text \<open>\<open>initializeFacade\<close>: the Model, then the Controller, then the View.\<close>

definition Facade_initializeFacade :: "ref \<Rightarrow> world \<Rightarrow> unit result" where
  "Facade_initializeFacade this w =
     (case Facade_initializeModel this w of
        (Inl e, w1) \<Rightarrow> (Inl e, w1)
      | (Inr _, w1) \<Rightarrow>
          (case Facade_initializeController this w1 of
             (Inl e, w2) \<Rightarrow> (Inl e, w2)
           | (Inr _, w2) \<Rightarrow> Facade_initializeView this w2))"

text \<open>
  The constructor: throws when the instance map has an entry for the key; otherwise the
  fields of the new object start as \<open>null\<close>, \<open>initializeNotifier\<close> stores the key, the
  object is stored under the key, and \<open>initializeFacade\<close> runs.
\<close>

definition Facade_constructor :: "string \<Rightarrow> world \<Rightarrow> ref result" where
  "Facade_constructor key w =
     (case Facade_instanceMap w key of
        Some _ \<Rightarrow> (Inl (Error Facade_MULTITON_MSG), w)
      | None \<Rightarrow>
          (let this = nextRef w;
               w1 = w\<lparr>nextRef := Suc this,
                      facades := (facades w)(this :=
                        \<lparr>controller = None, model = None, view = None, Facade.multitonKey = KNull\<rparr>)\<rparr>;
               w2 = Facade_initializeNotifier this key w1;
               w3 = w2\<lparr>Facade_instanceMap := (Facade_instanceMap w2)(key \<mapsto> this)\<rparr>
           in (case Facade_initializeFacade this w3 of
                 (Inl e, w4) \<Rightarrow> (Inl e, w4)
               | (Inr _, w4) \<Rightarrow> (Inr this, w4))))"

definition Facade_getInstance :: "jskey \<Rightarrow> world \<Rightarrow> ref option result" where
  "Facade_getInstance key w =
     (if \<not> truthy key then (Inr None, w)
      else (case Facade_instanceMap w (toPropertyKey key) of
              None \<Rightarrow>
                (case Facade_constructor (toPropertyKey key) w of
                   (Inl e, w1) \<Rightarrow> (Inl e, w1)
                 | (Inr r, w1) \<Rightarrow>
                     (let w2 = w1\<lparr>Facade_instanceMap := (Facade_instanceMap w1)(toPropertyKey key \<mapsto> r)\<rparr>
                      in (Inr (Facade_instanceMap w2 (toPropertyKey key)), w2)))
            | Some _ \<Rightarrow> (Inr (Facade_instanceMap w (toPropertyKey key)), w)))"

text \<open>
  The methods that delegate to the Model. \<open>registerProxy\<close>, \<open>retrieveProxy\<close> and
  \<open>hasProxy\<close> call a method of \<open>this.model\<close> with no test, which is a TypeError when the
  field is \<open>null\<close>; \<open>removeProxy\<close> tests the field first.
\<close>

definition Facade_registerProxy :: "ref \<Rightarrow> proxy \<Rightarrow> world \<Rightarrow> unit result" where
  "Facade_registerProxy this p w =
     (case model (facades w this) of
        None \<Rightarrow> (Inl TypeError, w)
      | Some m \<Rightarrow> (Inr (), Model_registerProxy m p w))"

definition Facade_retrieveProxy :: "ref \<Rightarrow> string \<Rightarrow> world \<Rightarrow> error + proxy jsval" where
  "Facade_retrieveProxy this proxyName w =
     (case model (facades w this) of
        None \<Rightarrow> Inl TypeError
      | Some m \<Rightarrow> Inr (Model_retrieveProxy m proxyName w))"

definition Facade_hasProxy :: "ref \<Rightarrow> string \<Rightarrow> world \<Rightarrow> error + bool" where
  "Facade_hasProxy this proxyName w =
     (case model (facades w this) of
        None \<Rightarrow> Inl TypeError
      | Some m \<Rightarrow> Inr (Model_hasProxy m proxyName w))"


text \<open>\<open>notifyObservers\<close> does nothing when the view field is \<open>null\<close>.\<close>

definition Facade_notifyObservers :: "callbacks \<Rightarrow> ref \<Rightarrow> notification \<Rightarrow> world \<Rightarrow> world" where
  "Facade_notifyObservers cb this n w =
     (case view (facades w this) of
        None \<Rightarrow> w
      | Some v \<Rightarrow> View_notifyObservers cb v n w)"

definition Facade_sendNotification ::
    "callbacks \<Rightarrow> ref \<Rightarrow> string \<Rightarrow> payload \<Rightarrow> payload \<Rightarrow> world \<Rightarrow> world" where
  "Facade_sendNotification cb this notificationName body type w =
     Facade_notifyObservers cb this (Notification notificationName body type) w"

definition Facade_hasCore :: "string \<Rightarrow> world \<Rightarrow> bool" where
  "Facade_hasCore key w = (Facade_instanceMap w key \<noteq> None)"

definition Facade_removeCore :: "string \<Rightarrow> world \<Rightarrow> world" where
  "Facade_removeCore key w =
     (case Facade_instanceMap w key of
        None \<Rightarrow> w
      | Some _ \<Rightarrow>
          (let w1 = Model_removeModel key w;
               w2 = View_removeView key w1;
               w3 = Controller_removeController key w2
           in w3\<lparr>Facade_instanceMap := (Facade_instanceMap w3)(key := None)\<rparr>))"

subsection \<open>Vocabulary of the properties and sample worlds\<close>


text \<open>
  The world after \<open>new Facade('app')\<close> on a fresh page: the Facade is object 0, its
  Model object 1, its Controller object 2 and its View object 3.
\<close>

definition demo_world :: world where
  "demo_world = snd (Facade_constructor ''app'' init_world)"


text \<open>Two observers of the name \<open>greet\<close> in the View of \<open>demo_world\<close>.\<close>

definition greeter :: observer where
  "greeter = Observer 10 20"

definition logger :: observer where
  "logger = Observer 11 21"

definition demo_observed :: world where
  "demo_observed =
     demo_world\<lparr>views := (views demo_world)
       (3 := registerObserver ''greet'' logger
               (registerObserver ''greet'' greeter (views demo_world 3)))\<rparr>"

text \<open>A callback that removes its own observer from the name being dispatched.\<close>

definition self_removing :: callbacks where
  "self_removing ob n v = removeObserver (getName n) (notifyContext ob) v"


text \<open>\<open>demo_world\<close> after \<open>new Facade('game')\<close>: a second core, objects 4 to 7.\<close>

definition two_cores :: world where
  "two_cores = snd (Facade_constructor ''game'' demo_world)"

text \<open>
  \<open>demo_observed\<close> after \<open>new Facade('')\<close>: object 4 is a Facade whose three fields are
  \<open>null\<close>, since every factory returns \<open>null\<close> for the empty key.
\<close>

definition demo_keyless :: world where
  "demo_keyless = snd (Facade_constructor [] demo_observed)"

definition greeting :: notification where
  "greeting = Notification ''greet'' (PString ''hello'') (PString ''info'')"

section \<open>Properties\<close>

subsection \<open>Constructors and factories never throw but for a key in use\<close>

lemma Model_constructor_free:
  "Model_instanceMap w key = None \<Longrightarrow>
   Model_constructor key w =
     (Inr (nextRef w),
      w\<lparr>nextRef := Suc (nextRef w),
        models := (models w)(nextRef w := \<lparr>proxyMap = (\<lambda>_. Undefined), Model.multitonKey = key\<rparr>),
        Model_instanceMap := (Model_instanceMap w)(key \<mapsto> nextRef w)\<rparr>)"
  by (simp add: Model_constructor_def Model_initializeModel_def Let_def)


lemma Model_getInstance_falsy: "\<not> truthy key \<Longrightarrow> Model_getInstance key w = (Inr None, w)"
  by (simp add: Model_getInstance_def)

lemma Model_getInstance_present:
  "truthy key \<Longrightarrow> Model_instanceMap w (toPropertyKey key) = Some r \<Longrightarrow>
   Model_getInstance key w = (Inr (Some r), w)"
  by (simp add: Model_getInstance_def)

lemma Model_getInstance_absent:
  "truthy key \<Longrightarrow> Model_instanceMap w (toPropertyKey key) = None \<Longrightarrow>
   Model_getInstance key w =
     (Inr (Some (nextRef w)),
      w\<lparr>nextRef := Suc (nextRef w),
        models := (models w)(nextRef w := \<lparr>proxyMap = (\<lambda>_. Undefined), Model.multitonKey = toPropertyKey key\<rparr>),
        Model_instanceMap := (Model_instanceMap w)(toPropertyKey key \<mapsto> nextRef w)\<rparr>)"
  by (simp add: Model_getInstance_def Model_constructor_free Let_def)

lemma Model_getInstance_no_throw: "\<exists>r. fst (Model_getInstance key w) = Inr r"
  by (cases "truthy key"; cases "Model_instanceMap w (toPropertyKey key)")
     (simp_all add: Model_getInstance_falsy Model_getInstance_present Model_getInstance_absent)

lemma Model_getInstance_frame:
  "Facade_instanceMap (snd (Model_getInstance key w)) = Facade_instanceMap w"
  "View_instanceMap (snd (Model_getInstance key w)) = View_instanceMap w"
  "Controller_instanceMap (snd (Model_getInstance key w)) = Controller_instanceMap w"
  "facades (snd (Model_getInstance key w)) = facades w"
  "views (snd (Model_getInstance key w)) = views w"
  by (cases "truthy key"; cases "Model_instanceMap w (toPropertyKey key)";
      simp add: Model_getInstance_falsy Model_getInstance_present Model_getInstance_absent)+

lemma View_getInstance_no_throw: "\<exists>r. fst (View_getInstance key w) = Inr r"
  by (simp add: View_getInstance_def Let_def split: option.splits)

lemma View_getInstance_frame:
  "Facade_instanceMap (snd (View_getInstance key w)) = Facade_instanceMap w"
  "Model_instanceMap (snd (View_getInstance key w)) = Model_instanceMap w"
  "Controller_instanceMap (snd (View_getInstance key w)) = Controller_instanceMap w"
  "facades (snd (View_getInstance key w)) = facades w"
  "models (snd (View_getInstance key w)) = models w"
  by (simp_all add: View_getInstance_def Let_def split: option.splits)

lemma Controller_getInstance_no_throw: "\<exists>r. fst (Controller_getInstance key w) = Inr r"
  by (simp add: Controller_getInstance_def Let_def split: option.splits)

lemma Controller_getInstance_frame:
  "Facade_instanceMap (snd (Controller_getInstance key w)) = Facade_instanceMap w"
  "Model_instanceMap (snd (Controller_getInstance key w)) = Model_instanceMap w"
  "View_instanceMap (snd (Controller_getInstance key w)) = View_instanceMap w"
  "facades (snd (Controller_getInstance key w)) = facades w"
  "models (snd (Controller_getInstance key w)) = models w"
  "views (snd (Controller_getInstance key w)) = views w"
  by (simp_all add: Controller_getInstance_def Let_def split: option.splits)

lemma Facade_initializeModel_ok:
  "fst (Facade_initializeModel this w) = Inr ()"
  "Facade_instanceMap (snd (Facade_initializeModel this w)) = Facade_instanceMap w"
  using Model_getInstance_no_throw [of "Facade.multitonKey (facades w this)" w]
        Model_getInstance_frame(1) [of "Facade.multitonKey (facades w this)" w]
  by (auto simp: Facade_initializeModel_def split: option.splits prod.splits sum.splits)

lemma Facade_initializeController_ok:
  "fst (Facade_initializeController this w) = Inr ()"
  "Facade_instanceMap (snd (Facade_initializeController this w)) = Facade_instanceMap w"
  using Controller_getInstance_no_throw [of "Facade.multitonKey (facades w this)" w]
        Controller_getInstance_frame(1) [of "Facade.multitonKey (facades w this)" w]
  by (auto simp: Facade_initializeController_def split: option.splits prod.splits sum.splits)

lemma Facade_initializeView_ok:
  "fst (Facade_initializeView this w) = Inr ()"
  "Facade_instanceMap (snd (Facade_initializeView this w)) = Facade_instanceMap w"
  using View_getInstance_no_throw [of "Facade.multitonKey (facades w this)" w]
        View_getInstance_frame(1) [of "Facade.multitonKey (facades w this)" w]
  by (auto simp: Facade_initializeView_def split: option.splits prod.splits sum.splits)

lemma Facade_initializeFacade_ok:
  "fst (Facade_initializeFacade this w) = Inr ()"
  "Facade_instanceMap (snd (Facade_initializeFacade this w)) = Facade_instanceMap w"
proof -
  obtain w1 where m: "Facade_initializeModel this w = (Inr (), w1)"
    using Facade_initializeModel_ok(1) [of this w] by (cases "Facade_initializeModel this w") auto
  obtain w2 where c: "Facade_initializeController this w1 = (Inr (), w2)"
    using Facade_initializeController_ok(1) [of this w1]
    by (cases "Facade_initializeController this w1") auto
  have f: "Facade_initializeFacade this w = Facade_initializeView this w2"
    by (simp add: Facade_initializeFacade_def m c)
  show "fst (Facade_initializeFacade this w) = Inr ()"
    by (simp add: f Facade_initializeView_ok)
  have "Facade_instanceMap w1 = Facade_instanceMap w"
    using Facade_initializeModel_ok(2) [of this w] by (simp add: m)
  moreover have "Facade_instanceMap w2 = Facade_instanceMap w1"
    using Facade_initializeController_ok(2) [of this w1] by (simp add: c)
  ultimately show "Facade_instanceMap (snd (Facade_initializeFacade this w)) = Facade_instanceMap w"
    by (simp add: f Facade_initializeView_ok)
qed


lemma Facade_constructor_free:
  assumes "Facade_instanceMap w key = None"
  shows "fst (Facade_constructor key w) = Inr (nextRef w)"
    and "Facade_instanceMap (snd (Facade_constructor key w)) = (Facade_instanceMap w)(key \<mapsto> nextRef w)"
proof -
  define w3 where "w3 = (Facade_initializeNotifier (nextRef w) key
        (w\<lparr>nextRef := Suc (nextRef w),
           facades := (facades w)(nextRef w :=
             \<lparr>controller = None, model = None, view = None, Facade.multitonKey = KNull\<rparr>)\<rparr>))
        \<lparr>Facade_instanceMap := (Facade_instanceMap w)(key \<mapsto> nextRef w)\<rparr>"
  obtain w4 where i: "Facade_initializeFacade (nextRef w) w3 = (Inr (), w4)"
    using Facade_initializeFacade_ok(1) [of "nextRef w" w3]
    by (cases "Facade_initializeFacade (nextRef w) w3") auto
  have c: "Facade_constructor key w = (Inr (nextRef w), w4)"
    using assms i by (simp add: Facade_constructor_def Let_def w3_def Facade_initializeNotifier_def)
  show "fst (Facade_constructor key w) = Inr (nextRef w)" by (simp add: c)
  have "Facade_instanceMap w4 = Facade_instanceMap w3"
    using Facade_initializeFacade_ok(2) [of "nextRef w" w3] by (simp add: i)
  then show "Facade_instanceMap (snd (Facade_constructor key w)) = (Facade_instanceMap w)(key \<mapsto> nextRef w)"
    by (simp add: c w3_def)
qed

subsection \<open>The sample worlds, evaluated\<close>

lemmas eval_defs =
  init_world_def Model_constructor_def Model_initializeModel_def Model_getInstance_def
  View_getInstance_def Controller_getInstance_def Facade_initializeNotifier_def
  Facade_initializeModel_def Facade_initializeController_def Facade_initializeView_def
  Facade_initializeFacade_def Facade_constructor_def Facade_getInstance_def Let_def

lemma demo_world_fields:
  "Facade_instanceMap demo_world = [''app'' \<mapsto> 0]"
  "Model_instanceMap demo_world = [''app'' \<mapsto> Suc 0]"
  "Controller_instanceMap demo_world = [''app'' \<mapsto> 2]"
  "View_instanceMap demo_world = [''app'' \<mapsto> 3]"
  "facades demo_world 0 =
     \<lparr>controller = Some 2, model = Some (Suc 0), view = Some 3, Facade.multitonKey = KString ''app''\<rparr>"
  "models demo_world (Suc 0) = \<lparr>proxyMap = (\<lambda>_. Undefined), Model.multitonKey = ''app''\<rparr>"
  "views demo_world 3 = \<lparr>observerMap = Map.empty\<rparr>"
  "nextRef demo_world = 4"
  "calls demo_world = []"
  "notified demo_world = []"
  by (simp_all add: demo_world_def eval_defs eval_nat_numeral)


lemma two_cores_fields:
  "Facade_instanceMap two_cores = [''app'' \<mapsto> 0, ''game'' \<mapsto> 4]"
  "Model_instanceMap two_cores = [''app'' \<mapsto> Suc 0, ''game'' \<mapsto> 5]"
  "Controller_instanceMap two_cores = [''app'' \<mapsto> 2, ''game'' \<mapsto> 6]"
  "View_instanceMap two_cores = [''app'' \<mapsto> 3, ''game'' \<mapsto> 7]"
  by (simp_all add: two_cores_def eval_defs demo_world_fields eval_nat_numeral)

lemma demo_observed_fields:
  "views demo_observed 3 = \<lparr>observerMap = [''greet'' \<mapsto> [greeter, logger]]\<rparr>"
  "facades demo_observed = facades demo_world"
  "notified demo_observed = []"
  "nextRef demo_observed = 4"
  "Facade_instanceMap demo_observed = Facade_instanceMap demo_world"
  by (simp_all add: demo_observed_def registerObserver_def demo_world_fields)

lemma demo_keyless_fields:
  "facades demo_keyless 4 =
     \<lparr>controller = None, model = None, view = None, Facade.multitonKey = KString []\<rparr>"
  "facades demo_keyless 0 = facades demo_world 0"
  "views demo_keyless = views demo_observed"
  "notified demo_keyless = []"
  by (simp_all add: demo_keyless_def eval_defs demo_observed_fields demo_world_fields)

text \<open>
  What the Facade constructor leaves for a non-empty key: the three fields of the new
  Facade are the Model, the View and the Controller registered under its own key.
\<close>

lemma Facade_constructor_wires_core:
  assumes "Facade_instanceMap w k = None" and "k \<noteq> []"
  shows "model (facades (snd (Facade_constructor k w)) (nextRef w)) =
           Model_instanceMap (snd (Facade_constructor k w)) k"
    and "view (facades (snd (Facade_constructor k w)) (nextRef w)) =
           View_instanceMap (snd (Facade_constructor k w)) k"
    and "controller (facades (snd (Facade_constructor k w)) (nextRef w)) =
           Controller_instanceMap (snd (Facade_constructor k w)) k"
    and "Model_instanceMap (snd (Facade_constructor k w)) k \<noteq> None"
    and "View_instanceMap (snd (Facade_constructor k w)) k \<noteq> None"
    and "Controller_instanceMap (snd (Facade_constructor k w)) k \<noteq> None"
  using assms
  by (auto simp: eval_defs split: option.splits)

text \<open>
  So a Model cannot be constructed for a non-empty key once the Facade constructor has
  run for it: the Facade has made the Model.
\<close>

lemma Model_constructor_after_Facade_constructor:
  assumes "Facade_instanceMap w k = None" and "k \<noteq> []"
  shows "fst (Model_constructor k (snd (Facade_constructor k w))) = Inl (Error Model_MULTITON_MSG)"
  using Facade_constructor_wires_core(4) [OF assms]
  by (auto simp: Model_constructor_def split: option.splits)

subsection \<open>Multiton constructors\<close>



subsection \<open>Removing a core\<close>

lemma Facade_removeCore_registered:
  "Facade_instanceMap w k = Some r \<Longrightarrow>
   Facade_removeCore k w =
     w\<lparr>Model_instanceMap := (Model_instanceMap w)(k := None),
       View_instanceMap := (View_instanceMap w)(k := None),
       Controller_instanceMap := (Controller_instanceMap w)(k := None),
       Facade_instanceMap := (Facade_instanceMap w)(k := None)\<rparr>"
  by (simp add: Facade_removeCore_def Model_removeModel_def View_removeView_def
        Controller_removeController_def Let_def)

lemma Facade_removeCore_absent:
  "Facade_instanceMap w k = None \<Longrightarrow> Facade_removeCore k w = w"
  by (simp add: Facade_removeCore_def)

text \<open>
  Claim C2. For a key with a registered core, \<open>hasCore\<close> is false after \<open>removeCore\<close>,
  and in the world \<open>removeCore\<close> leaves, the Facade constructor with the same key returns
  a new object, and so does the Model constructor; the Facade constructor also succeeds
  after the Model constructor has run for the key.
\<close>

theorem removeCore_frees_the_key:
  assumes "Facade_hasCore k w"
  shows "\<not> Facade_hasCore k (Facade_removeCore k w)
       \<and> fst (Facade_constructor k (Facade_removeCore k w)) = Inr (nextRef w)
       \<and> fst (Model_constructor k (Facade_removeCore k w)) = Inr (nextRef w)
       \<and> fst (Facade_constructor k (snd (Model_constructor k (Facade_removeCore k w))))
           = Inr (Suc (nextRef w))"
proof -
  from assms obtain r where r: "Facade_instanceMap w k = Some r"
    by (auto simp: Facade_hasCore_def)
  let ?w = "Facade_removeCore k w"
  have f: "Facade_instanceMap ?w k = None" and m: "Model_instanceMap ?w k = None"
    and n: "nextRef ?w = nextRef w"
    by (simp_all add: Facade_removeCore_registered [OF r])
  have "\<not> Facade_hasCore k ?w" by (simp add: Facade_hasCore_def f)
  moreover have "fst (Facade_constructor k ?w) = Inr (nextRef w)"
    using Facade_constructor_free(1) [OF f] by (simp add: n)
  moreover have "fst (Model_constructor k ?w) = Inr (nextRef w)"
    by (simp add: Model_constructor_free [OF m] n)
  moreover have "fst (Facade_constructor k (snd (Model_constructor k ?w))) = Inr (Suc (nextRef w))"
  proof -
    have "Facade_instanceMap (snd (Model_constructor k ?w)) k = None"
      by (simp add: Model_constructor_free [OF m] f)
    from Facade_constructor_free(1) [OF this] show ?thesis
      by (simp add: Model_constructor_free [OF m] n)
  qed
  ultimately show ?thesis by simp
qed

theorem removeCore_frees_the_key_witness:
  "Facade_hasCore ''app'' demo_world
   \<and> \<not> Facade_hasCore ''app'' (Facade_removeCore ''app'' demo_world)
   \<and> fst (Facade_constructor ''app'' (Facade_removeCore ''app'' demo_world)) = Inr 4
   \<and> fst (Model_constructor ''app'' (Facade_removeCore ''app'' demo_world)) = Inr 4"
  using removeCore_frees_the_key [of "''app''" demo_world]
  by (simp add: Facade_hasCore_def demo_world_fields)

text \<open>
  Claim C3. When a core is registered under the key, \<open>removeCore\<close> deletes the entry of
  the key from the four instance maps and changes nothing else: every other key keeps its
  entry in each map and the objects are untouched. When no core is registered under the
  key, \<open>removeCore\<close> returns the world as it is.
\<close>

theorem removeCore_frame:
  "(Facade_instanceMap w k = Some r \<longrightarrow>
      Model_instanceMap (Facade_removeCore k w) = (Model_instanceMap w)(k := None)
      \<and> View_instanceMap (Facade_removeCore k w) = (View_instanceMap w)(k := None)
      \<and> Controller_instanceMap (Facade_removeCore k w) = (Controller_instanceMap w)(k := None)
      \<and> Facade_instanceMap (Facade_removeCore k w) = (Facade_instanceMap w)(k := None)
      \<and> models (Facade_removeCore k w) = models w
      \<and> views (Facade_removeCore k w) = views w
      \<and> facades (Facade_removeCore k w) = facades w
      \<and> (\<forall>k'. k' \<noteq> k \<longrightarrow>
            Model_instanceMap (Facade_removeCore k w) k' = Model_instanceMap w k'
            \<and> View_instanceMap (Facade_removeCore k w) k' = View_instanceMap w k'
            \<and> Controller_instanceMap (Facade_removeCore k w) k' = Controller_instanceMap w k'
            \<and> Facade_instanceMap (Facade_removeCore k w) k' = Facade_instanceMap w k'))
   \<and> (Facade_instanceMap w k0 = None \<longrightarrow> Facade_removeCore k0 w = w)"
  by (simp add: Facade_removeCore_registered Facade_removeCore_absent)

theorem removeCore_frame_witness:
  "Facade_instanceMap two_cores ''app'' = Some 0
   \<and> Model_instanceMap (Facade_removeCore ''app'' two_cores) = [''game'' \<mapsto> 5]
   \<and> View_instanceMap (Facade_removeCore ''app'' two_cores) = [''game'' \<mapsto> 7]
   \<and> Controller_instanceMap (Facade_removeCore ''app'' two_cores) = [''game'' \<mapsto> 6]
   \<and> Facade_instanceMap (Facade_removeCore ''app'' two_cores) = [''game'' \<mapsto> 4]
   \<and> Facade_instanceMap two_cores ''shop'' = None
   \<and> Facade_removeCore ''shop'' two_cores = two_cores"
  using removeCore_frame [of two_cores "''app''" 0 "''shop''"]
  by (simp add: two_cores_fields fun_upd_twist)

subsection \<open>Factories\<close>






text \<open>
  Claim C9. For a falsy key (\<open>null\<close>, \<open>undefined\<close> or the empty string),
  \<open>Model.getInstance\<close> and \<open>Facade.getInstance\<close> return \<open>null\<close> and the world is the one
  before the call: no instance is constructed and no instance map changes.
\<close>

theorem getInstance_falsy_key:
  "\<not> truthy k \<Longrightarrow> Model_getInstance k w = (Inr None, w) \<and> Facade_getInstance k w = (Inr None, w)"
  by (simp add: Model_getInstance_def Facade_getInstance_def)

theorem getInstance_falsy_key_witness:
  "\<not> truthy KNull \<and> \<not> truthy KUndefined \<and> \<not> truthy (KString [])
   \<and> Model_getInstance KNull demo_world = (Inr None, demo_world)
   \<and> Facade_getInstance KNull demo_world = (Inr None, demo_world)
   \<and> Model_getInstance KUndefined demo_world = (Inr None, demo_world)
   \<and> Facade_getInstance KUndefined demo_world = (Inr None, demo_world)
   \<and> Model_getInstance (KString []) demo_world = (Inr None, demo_world)
   \<and> Facade_getInstance (KString []) demo_world = (Inr None, demo_world)"
  using getInstance_falsy_key [of KNull demo_world] getInstance_falsy_key [of KUndefined demo_world]
        getInstance_falsy_key [of "KString []" demo_world]
  by simp

subsection \<open>Proxies\<close>



text \<open>
  \<open>Facade.retrieveProxy\<close> has no test of the model field: on a Facade without Model,
  such as the one \<open>new Facade('')\<close> makes, the call is a TypeError.
\<close>

lemma Facade_retrieveProxy_without_model:
  "model (facades w f) = None \<Longrightarrow> Facade_retrieveProxy f n w = Inl TypeError"
  by (simp add: Facade_retrieveProxy_def)





subsection \<open>Dispatch\<close>

lemma dispatch_notified:
  "notified (dispatch cb v n obs w) = notified w @ map (\<lambda>ob. (ob, n)) obs"
  by (induction obs arbitrary: w) (simp_all add: notifyObserver_def)

lemma dispatch_views:
  "views (dispatch cb v n obs w) = (views w)(v := fold (\<lambda>ob. cb ob n) obs (views w v))"
  by (induction obs arbitrary: w) (simp_all add: notifyObserver_def)

text \<open>
  Claim C8. When the View has the sequence \<open>obs\<close> registered for the name of the
  notification at the moment of the call, \<open>notifyObservers\<close> invokes exactly the observers
  of \<open>obs\<close>, in the order of \<open>obs\<close>, each with the notification, whatever the callbacks do
  to the observer map while the dispatch runs; the View it leaves is the one the
  callbacks of \<open>obs\<close> produce in that order. When no sequence is registered for the name,
  \<open>notifyObservers\<close> returns the world as it is.
\<close>

theorem notifyObservers_snapshot:
  "(observerMap (views w v) (getName n) = Some obs \<longrightarrow>
      notified (View_notifyObservers cb v n w) = notified w @ map (\<lambda>ob. (ob, n)) obs
      \<and> views (View_notifyObservers cb v n w) v = fold (\<lambda>ob. cb ob n) obs (views w v))
   \<and> (observerMap (views w v0) (getName n0) = None \<longrightarrow> View_notifyObservers cb v0 n0 w = w)"
  by (simp add: View_notifyObservers_def dispatch_notified dispatch_views)

theorem notifyObservers_snapshot_witness:
  "observerMap (views demo_observed 3) (getName greeting) = Some [greeter, logger]
   \<and> notified (View_notifyObservers self_removing 3 greeting demo_observed) =
       [(greeter, greeting), (logger, greeting)]
   \<and> observerMap (views (View_notifyObservers self_removing 3 greeting demo_observed) 3) ''greet'' = None
   \<and> observerMap (views demo_observed 3) ''bye'' = None
   \<and> View_notifyObservers self_removing 3 (Notification ''bye'' PUndefined PUndefined) demo_observed
       = demo_observed"
  using notifyObservers_snapshot [of demo_observed 3 greeting "[greeter, logger]" self_removing
          3 "Notification ''bye'' PUndefined PUndefined"]
  by (simp add: demo_observed_fields greeting_def self_removing_def removeObserver_def
        greeter_def logger_def)

text \<open>
  Claim C4. \<open>sendNotification\<close> is \<open>notifyObservers\<close> of the same Facade on the
  notification made of the three arguments. \<open>notifyObservers\<close> of a Facade whose view
  field is \<open>null\<close> returns the world as it is; otherwise it is \<open>View.notifyObservers\<close> of
  the View in that field, and when the call returns every observer registered for the
  name has been invoked, in order, with that one notification. The View in the field of
  a Facade made by the constructor for a non-empty key is the View registered under
  that key.
\<close>

theorem sendNotification_forwards:
  "Facade_sendNotification cb f name body type w =
     Facade_notifyObservers cb f (Notification name body type) w
   \<and> (view (facades w f0) = None \<longrightarrow> Facade_notifyObservers cb f0 n w = w)
   \<and> (view (facades w f) = Some v \<longrightarrow>
        Facade_sendNotification cb f name body type w =
          View_notifyObservers cb v (Notification name body type) w)
   \<and> (view (facades w f) = Some v \<and> observerMap (views w v) name = Some obs \<longrightarrow>
        notified (Facade_sendNotification cb f name body type w) =
          notified w @ map (\<lambda>ob. (ob, Notification name body type)) obs)
   \<and> (Facade_instanceMap w1 k = None \<and> k \<noteq> [] \<longrightarrow>
        view (facades (snd (Facade_constructor k w1)) (nextRef w1)) =
          View_instanceMap (snd (Facade_constructor k w1)) k
        \<and> View_instanceMap (snd (Facade_constructor k w1)) k \<noteq> None)"
  by (simp add: Facade_sendNotification_def Facade_notifyObservers_def View_notifyObservers_def
        dispatch_notified Facade_constructor_wires_core)

theorem sendNotification_forwards_witness:
  "Facade_instanceMap init_world ''app'' = None
   \<and> view (facades demo_world 0) = View_instanceMap demo_world ''app''
   \<and> view (facades demo_keyless 4) = None
   \<and> Facade_notifyObservers self_removing 4 greeting demo_keyless = demo_keyless
   \<and> view (facades demo_keyless 0) = Some 3
   \<and> observerMap (views demo_keyless 3) ''greet'' = Some [greeter, logger]
   \<and> notified (Facade_sendNotification self_removing 0 ''greet'' (PString ''hello'') (PString ''info'') demo_keyless)
       = [(greeter, greeting), (logger, greeting)]"
  using sendNotification_forwards [of self_removing 0 "''greet''" "PString ''hello''" "PString ''info''"
          demo_keyless 4 greeting 3 "[greeter, logger]" init_world "''app''"]
  by (auto simp add: demo_keyless_fields demo_observed_fields demo_world_fields greeting_def
        init_world_def)

end
